theory Spec2Isabelle
  imports Main "HOL-Library.AList"
begin

section \<open>Values exchanged on the wire\<close>

text \<open>
  The engine receives \<open>unknown\<close> values that come out of \<open>JSON.parse\<close>. An object is its
  list of own properties; a property that is absent reads as \<open>undefined\<close>, which is
  \<open>None\<close> below. Numbers are only compared and passed through by the code modelled here.
\<close>

datatype json =
    JNull
  | JBool bool
  | JNum int
  | JStr string
  | JArr "json list"
  | JObj "(string \<times> json) list"

text \<open>\<open>req.name\<close> on a value cast to a string-keyed record: arrays and objects are
  the only values that reach it; an array has none of the properties the engine reads.\<close>

fun prop_of :: "json \<Rightarrow> string \<Rightarrow> json option" where
  "prop_of (JObj ps) k = map_of ps k"
| "prop_of _ k = None"

section \<open>Request context (the context part of src/src/types/json-rpc.ts)\<close>

record auth_context =
  clientId :: string
  authorizedSites :: "string list"
  permissions :: "string list"
  scopes :: "string list"

text \<open>\<open>startTime\<close> is a clock reading used for log output only and is left out.\<close>

record request_context =
  correlationId :: string
  path :: "string list"
  authContext :: "auth_context option"

definition createChild :: "request_context \<Rightarrow> string option \<Rightarrow> request_context" where
  "createChild parent pathSegment =
     (let child = \<lparr> correlationId = correlationId parent,
                       path = path parent,
                       authContext = authContext parent \<rparr>
      in case pathSegment of
           None \<Rightarrow> child
         | Some seg \<Rightarrow> if seg = [] then child else child \<lparr> path := path child @ [seg] \<rparr>)"

section \<open>Thrown values and responses (src/src/types/json-rpc.ts)\<close>

text \<open>
  What a schema or a handler can throw: a \<open>JsonRpcError\<close> (message, code, data), a
  \<open>ZodError\<close> (message and the value of \<open>format()\<close>), or any other \<open>Error\<close> (name, message).
\<close>

datatype thrown =
    JsonRpcError string int "json option"
  | ZodError string json
  | OtherError string string

fun error_name :: "thrown \<Rightarrow> string" where
  "error_name (JsonRpcError m c d) = ''JsonRpcError''"
| "error_name (ZodError m f) = ''ZodError''"
| "error_name (OtherError n m) = n"

fun error_message :: "thrown \<Rightarrow> string" where
  "error_message (JsonRpcError m c d) = m"
| "error_message (ZodError m f) = m"
| "error_message (OtherError n m) = m"

text \<open>A response is \<open>{jsonrpc, result, id}\<close> or \<open>{jsonrpc, error: {code, message, data}, id}\<close>.
  The \<open>id\<close> handed to \<open>createErrorResponse\<close> can be \<open>undefined\<close> (\<open>None\<close>).\<close>

datatype json_rpc_response =
    SuccessResponse json "json option"
  | ErrorResponse int string "json option" "json option"

fun response_id :: "json_rpc_response \<Rightarrow> json option" where
  "response_id (SuccessResponse r i) = i"
| "response_id (ErrorResponse c m d i) = i"

fun error_code :: "json_rpc_response \<Rightarrow> int option" where
  "error_code (SuccessResponse r i) = None"
| "error_code (ErrorResponse c m d i) = Some c"

text \<open>What \<open>processRequest\<close> resolves to: \<open>null\<close>, one response, or an array.\<close>

datatype reply =
    NullReply
  | Single json_rpc_response
  | Batch "reply list"

section \<open>The JSON-RPC handler (class JsonRpcHandler, src/unnamed/part_012)\<close>

definition PARSE_ERROR :: int where "PARSE_ERROR = -32700"
definition INVALID_REQUEST :: int where "INVALID_REQUEST = -32600"
definition METHOD_NOT_FOUND :: int where "METHOD_NOT_FOUND = -32601"
definition INVALID_PARAMS :: int where "INVALID_PARAMS = -32602"
definition INTERNAL_ERROR :: int where "INTERNAL_ERROR = -32603"
definition WP_AUTH_ERROR :: int where "WP_AUTH_ERROR = -32000"
definition WP_PERMISSION_ERROR :: int where "WP_PERMISSION_ERROR = -32001"
definition WP_RESOURCE_NOT_FOUND :: int where "WP_RESOURCE_NOT_FOUND = -32002"

text \<open>
  A registered method. The schema parses the raw \<open>params\<close> (possibly \<open>undefined\<close>) or
  throws; the handler takes the parsed params and the context and resolves or rejects.
  A handler is represented by the outcome it settles with; what it does to the outside
  world, and when it settles, is not part of the engine's state.
\<close>

record method_handler =
  handler :: "json \<Rightarrow> request_context \<Rightarrow> thrown + json"
  schema :: "json option \<Rightarrow> thrown + json"
  name :: string
  description :: "string option"

text \<open>The registry is a JavaScript \<open>Map\<close>: keys in insertion order, \<open>set\<close> on a key that
  is present replaces its value in place.\<close>

type_synonym registry = "(string \<times> method_handler) list"

definition registerMethod ::
  "string \<Rightarrow> (json \<Rightarrow> request_context \<Rightarrow> thrown + json) \<Rightarrow> (json option \<Rightarrow> thrown + json)
     \<Rightarrow> string option \<Rightarrow> registry \<Rightarrow> registry" where
  "registerMethod n h s d methods =
     AList.update n \<lparr> handler = h, schema = s, name = n, description = d \<rparr> methods"

definition getRegisteredMethods :: "registry \<Rightarrow> string list" where
  "getRegisteredMethods methods = map fst methods"

record validation_result =
  valid :: bool
  vr_id :: "json option"
  vr_error :: "string option"

definition is_object_or_array :: "json \<Rightarrow> bool" where
  "is_object_or_array v = (case v of JObj ps \<Rightarrow> True | JArr xs \<Rightarrow> True | _ \<Rightarrow> False)"

definition is_nonempty_string :: "json option \<Rightarrow> bool" where
  "is_nonempty_string v = (case v of Some (JStr s) \<Rightarrow> s \<noteq> [] | _ \<Rightarrow> False)"

definition id_type_ok :: "json \<Rightarrow> bool" where
  "id_type_ok v = (case v of JNull \<Rightarrow> True | JStr s \<Rightarrow> True | JNum n \<Rightarrow> True | _ \<Rightarrow> False)"

definition validateRequest :: "json \<Rightarrow> validation_result" where
  "validateRequest request =
     (if \<not> is_object_or_array request then
        \<lparr> valid = False, vr_id = None, vr_error = Some ''Request must be an object'' \<rparr>
      else if prop_of request ''jsonrpc'' \<noteq> Some (JStr ''2.0'') then
        \<lparr> valid = False, vr_id = prop_of request ''id'',
          vr_error = Some ''Invalid or missing jsonrpc field (must be \"2.0\")'' \<rparr>
      else if \<not> is_nonempty_string (prop_of request ''method'') then
        \<lparr> valid = False, vr_id = prop_of request ''id'',
          vr_error = Some ''Method must be a non-empty string'' \<rparr>
      else if (case prop_of request ''params'' of
                 None \<Rightarrow> False | Some p \<Rightarrow> \<not> is_object_or_array p) then
        \<lparr> valid = False, vr_id = prop_of request ''id'',
          vr_error = Some ''Params must be an object or array'' \<rparr>
      else if (case prop_of request ''id'' of
                 None \<Rightarrow> False | Some i \<Rightarrow> \<not> id_type_ok i) then
        \<lparr> valid = False, vr_id = Some JNull,
          vr_error = Some ''Id must be string, number, null, or undefined'' \<rparr>
      else \<lparr> valid = True, vr_id = prop_of request ''id'', vr_error = None \<rparr>)"

definition createErrorResponse ::
  "json option \<Rightarrow> int \<Rightarrow> string \<Rightarrow> json option \<Rightarrow> json_rpc_response" where
  "createErrorResponse i c m d = ErrorResponse c m d i"

text \<open>The \<open>catch\<close> of \<open>invokeMethod\<close>: a value named \<open>ZodError\<close> becomes INVALID_PARAMS with
  \<open>error.format()\<close> as data (a value of that name without the method fails there with a
  \<open>TypeError\<close>); anything else is thrown on.\<close>

fun rethrow :: "thrown \<Rightarrow> thrown" where
  "rethrow (ZodError m f) = JsonRpcError (''Invalid params: '' @ m) INVALID_PARAMS (Some f)"
| "rethrow (OtherError n m) =
     (if n = ''ZodError'' then OtherError ''TypeError'' ''error.format is not a function''
      else OtherError n m)"
| "rethrow e = e"

definition invokeMethod ::
  "registry \<Rightarrow> string \<Rightarrow> json option \<Rightarrow> request_context \<Rightarrow> thrown + json" where
  "invokeMethod methods methodName params ctx =
     (case map_of methods methodName of
        None \<Rightarrow> Inl (JsonRpcError (''Method not found: '' @ methodName) METHOD_NOT_FOUND None)
      | Some m \<Rightarrow>
          (case schema m params of
             Inl e \<Rightarrow> Inl (rethrow e)
           | Inr validatedParams \<Rightarrow>
               (case handler m validatedParams ctx of
                  Inl e \<Rightarrow> Inl (rethrow e)
                | Inr r \<Rightarrow> Inr r)))"

text \<open>\<open>development\<close> stands for \<open>process.env.NODE_ENV === 'development'\<close>.\<close>

definition handleMethodError :: "bool \<Rightarrow> json option \<Rightarrow> thrown \<Rightarrow> json_rpc_response" where
  "handleMethodError development i e =
     (case e of
        JsonRpcError m c d \<Rightarrow> createErrorResponse i c m d
      | _ \<Rightarrow> createErrorResponse i INTERNAL_ERROR ''Internal server error''
               (if development then Some (JStr (error_message e)) else None))"

definition method_name :: "json \<Rightarrow> string" where
  "method_name request = (case prop_of request ''method'' of Some (JStr s) \<Rightarrow> s | _ \<Rightarrow> [])"

text \<open>
  \<open>processRequest\<close> on a value that is not an array. The notification branch awaits
  \<open>invokeMethod\<close> inside the outer \<open>try\<close> only, so a throw there reaches the outer
  \<open>catch\<close>; the normal call has a \<open>try\<close> of its own.
\<close>

definition processSingle :: "bool \<Rightarrow> registry \<Rightarrow> json \<Rightarrow> request_context \<Rightarrow> reply" where
  "processSingle development methods request ctx =
     (let validationResult = validateRequest request in
      if \<not> valid validationResult then
        Single (createErrorResponse (vr_id validationResult) INVALID_REQUEST ''Invalid Request''
                  (map_option JStr (vr_error validationResult)))
      else
        (case prop_of request ''id'' of
           None \<Rightarrow>
             (case invokeMethod methods (method_name request) (prop_of request ''params'') ctx of
                Inr r \<Rightarrow> NullReply
              | Inl e \<Rightarrow>
                  Single (createErrorResponse (Some JNull) INTERNAL_ERROR ''Internal error''
                            (Some (JObj [(''message'', JStr (error_message e))]))))
         | Some i \<Rightarrow>
             (case invokeMethod methods (method_name request) (prop_of request ''params'') ctx of
                Inr r \<Rightarrow> Single (SuccessResponse r (Some i))
              | Inl e \<Rightarrow> Single (handleMethodError development (Some i) e))))"

text \<open>
  \<open>processBatchRequest\<close> awaits \<open>Promise.all\<close> over the mapped requests: the array it
  resolves to has the results at the positions of their requests, whichever settles
  first, which is the \<open>map\<close> below; the \<open>filter\<close> drops the \<open>null\<close>s.
\<close>

fun processRequest :: "bool \<Rightarrow> registry \<Rightarrow> json \<Rightarrow> request_context \<Rightarrow> reply"
  and processBatchRequest :: "bool \<Rightarrow> registry \<Rightarrow> json list \<Rightarrow> request_context \<Rightarrow> reply list"
where
  "processRequest development methods (JArr requests) ctx =
     Batch (processBatchRequest development methods requests ctx)"
| "processRequest development methods request ctx =
     processSingle development methods request ctx"
| "processBatchRequest development methods requests ctx =
     (if requests = [] then
        [Single (ErrorResponse INVALID_REQUEST ''Invalid Request: Empty batch'' None (Some JNull))]
      else
        filter (\<lambda>response. response \<noteq> NullReply)
          (map (\<lambda>request. processRequest development methods request (createChild ctx None))
             requests))"

section \<open>API key manager (class ApiKeyManager, src/unnamed/part_009)\<close>

text \<open>
  The key document is cast to \<open>ApiKeyStorage\<close> without a check, so what the manager holds
  and what \<open>validateApiKey\<close> reads are parsed JSON values of any shape. Truthiness of a
  parsed value, and of a property that may be absent:
\<close>

definition json_truthy :: "json \<Rightarrow> bool" where
  "json_truthy v =
     (case v of
        JNull \<Rightarrow> False
      | JBool b \<Rightarrow> b
      | JNum n \<Rightarrow> n \<noteq> 0
      | JStr s \<Rightarrow> s \<noteq> []
      | JArr xs \<Rightarrow> True
      | JObj ps \<Rightarrow> True)"

definition prop_truthy :: "json option \<Rightarrow> bool" where
  "prop_truthy v = (case v of None \<Rightarrow> False | Some x \<Rightarrow> json_truthy x)"

text \<open>
  The value of \<open>this.keys\<close>: a parsed value, or the built-in \<open>Array.prototype.keys\<close>, which
  is what \<open>storage.keys\<close> reads when the document is an array.
\<close>

datatype stored_keys =
    Loaded json
  | ArrayKeysFunction

text \<open>
  Everything a call reads from outside the manager: the clock (\<open>Date.now()\<close>,
  \<open>new Date()\<close>), the time value of \<open>new Date(v)\<close> (\<open>None\<close> for an invalid date), the ISO
  rendering of the clock, \<open>fs.readFile\<close>, \<open>JSON.parse\<close>, and the environment variables.
\<close>

record world =
  now :: int
  date_time :: "json \<Rightarrow> int option"
  iso_now :: string
  readFile :: "string \<Rightarrow> thrown + string"
  json_parse :: "string \<Rightarrow> thrown + json"
  API_KEYS :: "string option"
  API_KEY :: "string option"
  API_CLIENT_ID :: "string option"
  API_PERMISSIONS :: "string option"
  API_AUTHORIZED_SITES :: "string option"

record api_key_manager =
  source :: string
  file_path :: string
  keys :: stored_keys
  loading :: bool
  lastLoaded :: int

text \<open>The result of \<open>validateApiKey\<close>: \<open>{valid: false}\<close> has none of the optional fields; the
  others are whatever the record holds.\<close>

record key_validation =
  kv_valid :: bool
  kv_clientId :: "json option"
  kv_authorizedSites :: "json option"
  kv_permissions :: "json option"
  kv_scopes :: "json option"

definition invalid_key :: key_validation where
  "invalid_key = \<lparr> kv_valid = False, kv_clientId = None, kv_authorizedSites = None,
                   kv_permissions = None, kv_scopes = None \<rparr>"

text \<open>\<open>v || d\<close> on an optional string: absent and empty are both falsy.\<close>

definition or_default :: "string option \<Rightarrow> string \<Rightarrow> string" where
  "or_default v d = (case v of None \<Rightarrow> d | Some s \<Rightarrow> if s = [] then d else s)"

text \<open>\<open>if (v)\<close> on an optional string: the string when it is truthy.\<close>

definition truthy :: "string option \<Rightarrow> string option" where
  "truthy v = (case v of None \<Rightarrow> None | Some s \<Rightarrow> if s = [] then None else Some s)"

text \<open>\<open>s.split(',')\<close>.\<close>

fun split_on :: "char \<Rightarrow> string \<Rightarrow> string list" where
  "split_on c [] = [[]]"
| "split_on c (x # xs) =
     (if x = c then [] # split_on c xs
      else (case split_on c xs of
              [] \<Rightarrow> [[x]]
            | y # ys \<Rightarrow> (x # y) # ys))"

text \<open>
  \<open>storage.keys || []\<close>. Reading a property of \<open>null\<close> throws; an array has the built-in
  \<open>keys\<close>; a number, string or boolean has no such property; a falsy property gives the
  empty array.
\<close>

definition keys_or_empty :: "json \<Rightarrow> thrown + stored_keys" where
  "keys_or_empty storage =
     (case storage of
        JNull \<Rightarrow> Inl (OtherError ''TypeError'' ''Cannot read properties of null'')
      | JArr xs \<Rightarrow> Inr ArrayKeysFunction
      | JObj ps \<Rightarrow>
          (case map_of ps ''keys'' of
             None \<Rightarrow> Inr (Loaded (JArr []))
           | Some v \<Rightarrow> if json_truthy v then Inr (Loaded v) else Inr (Loaded (JArr [])))
      | _ \<Rightarrow> Inr (Loaded (JArr [])))"

definition loadKeysFromFile :: "world \<Rightarrow> api_key_manager \<Rightarrow> thrown + api_key_manager" where
  "loadKeysFromFile w m =
     (case readFile w (file_path m) of
        Inl e \<Rightarrow> Inl e
      | Inr data \<Rightarrow>
          (case json_parse w data of
             Inl e \<Rightarrow> Inl e
           | Inr storage \<Rightarrow>
               (case keys_or_empty storage of
                  Inl e \<Rightarrow> Inl e
                | Inr ks \<Rightarrow> Inr (m \<lparr> keys := ks \<rparr>))))"

text \<open>The record built from the single-key variables.\<close>

definition single_key :: "world \<Rightarrow> string \<Rightarrow> json" where
  "single_key w singleKey =
     JObj [(''key'', JStr singleKey),
           (''name'', JStr ''Environment API Key''),
           (''clientId'', JStr (or_default (API_CLIENT_ID w) ''default-client'')),
           (''permissions'',
            JArr (map JStr (split_on (CHR '','') (or_default (API_PERMISSIONS w) ''read,write'')))),
           (''authorizedSites'',
            JArr (map JStr (split_on (CHR '','') (or_default (API_AUTHORIZED_SITES w) ''*'')))),
           (''active'', JBool True),
           (''created'', JStr (iso_now w)),
           (''expires'', JNull)]"

text \<open>What \<open>loadKeysFromEnv\<close> does once the multi-key variable is absent or did not
  parse: the single key, or no key.\<close>

definition single_key_format :: "world \<Rightarrow> api_key_manager \<Rightarrow> api_key_manager" where
  "single_key_format w m =
     (case truthy (API_KEY w) of
        Some singleKey \<Rightarrow> m \<lparr> keys := Loaded (JArr [single_key w singleKey]) \<rparr>
      | None \<Rightarrow> m \<lparr> keys := Loaded (JArr []) \<rparr>)"

text \<open>The inner \<open>try\<close> of \<open>loadKeysFromEnv\<close> catches the throw of \<open>JSON.parse\<close> and of
  reading \<open>keys\<close> of \<open>null\<close>, logs a warning and goes on to the single-key format.\<close>

definition loadKeysFromEnv :: "world \<Rightarrow> api_key_manager \<Rightarrow> thrown + api_key_manager" where
  "loadKeysFromEnv w m =
     (case truthy (API_KEYS w) of
        Some apiKeys \<Rightarrow>
          (case json_parse w apiKeys of
             Inl e \<Rightarrow> Inr (single_key_format w m)
           | Inr storage \<Rightarrow>
               (case keys_or_empty storage of
                  Inl e \<Rightarrow> Inr (single_key_format w m)
                | Inr ks \<Rightarrow> Inr (m \<lparr> keys := ks \<rparr>)))
      | None \<Rightarrow> Inr (single_key_format w m))"

text \<open>
  \<open>loadKeys\<close> is asynchronous. Its synchronous prefix is the guard and the setting of the
  flag; with the file source the rest runs when the read completes. The flag keeps a
  second load from starting in between, so no other code writes the manager meanwhile.
\<close>

definition loadKeys_start :: "api_key_manager \<Rightarrow> api_key_manager option" where
  "loadKeys_start m = (if loading m then None else Some (m \<lparr> loading := True \<rparr>))"

definition load_from_source :: "world \<Rightarrow> api_key_manager \<Rightarrow> thrown + api_key_manager" where
  "load_from_source w m =
     (if source m = ''file'' then loadKeysFromFile w m
      else if source m = ''env'' then loadKeysFromEnv w m
      else Inr m)"

definition loadKeys_finish :: "world \<Rightarrow> api_key_manager \<Rightarrow> api_key_manager" where
  "loadKeys_finish w m =
     (case load_from_source w m of
        Inr m' \<Rightarrow> m' \<lparr> lastLoaded := now w, loading := False \<rparr>
      | Inl e \<Rightarrow> m \<lparr> loading := False \<rparr>)"

definition loadKeys :: "world \<Rightarrow> api_key_manager \<Rightarrow> api_key_manager" where
  "loadKeys w m = (case loadKeys_start m of None \<Rightarrow> m | Some m' \<Rightarrow> loadKeys_finish w m')"

definition initialize :: "world \<Rightarrow> api_key_manager \<Rightarrow> api_key_manager" where
  "initialize w m = loadKeys w m"

definition RELOAD_INTERVAL :: int where
  "RELOAD_INTERVAL = 5 * 60 * 1000"

text \<open>\<open>reloadIfNeeded\<close> does not await: with the file source only the prefix of
  \<open>loadKeys\<close> has run when it returns; the other sources never suspend.\<close>

definition reloadIfNeeded :: "world \<Rightarrow> api_key_manager \<Rightarrow> api_key_manager" where
  "reloadIfNeeded w m =
     (if now w - lastLoaded m > RELOAD_INTERVAL then
        (if source m = ''file'' then
           (case loadKeys_start m of None \<Rightarrow> m | Some m' \<Rightarrow> m')
         else loadKeys w m)
      else m)"

text \<open>\<open>this.keys.find(k => k.key === apiKey)\<close> on an array: the first element whose
  \<open>key\<close> is the string; reading \<open>key\<close> of a \<open>null\<close> element throws.\<close>

fun find_key :: "json list \<Rightarrow> string \<Rightarrow> thrown + json option" where
  "find_key [] apiKey = Inr None"
| "find_key (k # ks) apiKey =
     (if k = JNull then Inl (OtherError ''TypeError'' ''Cannot read properties of null'')
      else if prop_of k ''key'' = Some (JStr apiKey) then Inr (Some k)
      else find_key ks apiKey)"

text \<open>\<open>key.expires && new Date(key.expires) < new Date()\<close>: a comparison with an invalid
  date is false.\<close>

definition expired :: "world \<Rightarrow> json \<Rightarrow> bool" where
  "expired w k =
     (case prop_of k ''expires'' of
        None \<Rightarrow> False
      | Some v \<Rightarrow>
          json_truthy v \<and> (case date_time w v of None \<Rightarrow> False | Some t \<Rightarrow> t < now w))"

text \<open>The manager is returned as \<open>reloadIfNeeded\<close> left it, also when the lookup throws
  because \<open>this.keys\<close> is not an array.\<close>

definition validateApiKey ::
  "world \<Rightarrow> api_key_manager \<Rightarrow> string \<Rightarrow> (thrown + key_validation) \<times> api_key_manager" where
  "validateApiKey w m apiKey =
     (let m' = reloadIfNeeded w m in
      (case keys m' of
         Loaded (JArr ks) \<Rightarrow>
           (case find_key ks apiKey of
              Inl e \<Rightarrow> Inl e
            | Inr None \<Rightarrow> Inr invalid_key
            | Inr (Some k) \<Rightarrow>
                if \<not> prop_truthy (prop_of k ''active'') then Inr invalid_key
                else if expired w k then Inr invalid_key
                else Inr \<lparr> kv_valid = True,
                           kv_clientId = prop_of k ''clientId'',
                           kv_authorizedSites = prop_of k ''authorizedSites'',
                           kv_permissions = prop_of k ''permissions'',
                           kv_scopes = Some (JArr []) \<rparr>)
       | _ \<Rightarrow> Inl (OtherError ''TypeError'' ''this.keys.find is not a function''),
       m'))"

section \<open>WordPress site manager (class WordPressSiteManager, src/src/wordpress/tools/tags.ts)\<close>

record wordpress_credentials =
  username :: string
  applicationPassword :: string

text \<open>
  A site configuration is an object read from the configuration document with the
  credentials added under \<open>credentials\<close>; it is kept as its list of own properties.
\<close>

type_synonym site_config = "(string \<times> json) list"

definition credentials_value :: "wordpress_credentials \<Rightarrow> json" where
  "credentials_value c =
     JObj [(''username'', JStr (username c)), (''applicationPassword'', JStr (applicationPassword c))]"

text \<open>\<open>{...config, credentials}\<close> and \<open>const {credentials, ...safeConfig} = config\<close>.\<close>

definition with_credentials :: "site_config \<Rightarrow> wordpress_credentials \<Rightarrow> site_config" where
  "with_credentials config c = AList.update ''credentials'' (credentials_value c) config"

definition safeConfig :: "site_config \<Rightarrow> site_config" where
  "safeConfig config = AList.delete ''credentials'' config"

text \<open>
  The client (src/src/wordpress/client.ts) keeps the configuration and the base URL
  without one trailing slash. Its constructor calls \<open>config.baseUrl.replace\<close> and reads
  \<open>config.credentials.username\<close>: it throws a \<open>TypeError\<close> unless \<open>baseUrl\<close> is a string and
  \<open>credentials\<close> is present and not \<open>null\<close>.
\<close>

datatype wordpress_client = WordPressClient site_config string

definition strip_trailing_slash :: "string \<Rightarrow> string" where
  "strip_trailing_slash s = (if s \<noteq> [] \<and> last s = CHR ''/'' then butlast s else s)"

definition new_WordPressClient :: "site_config \<Rightarrow> thrown + wordpress_client" where
  "new_WordPressClient config =
     (case map_of config ''baseUrl'' of
        Some (JStr url) \<Rightarrow>
          (case map_of config ''credentials'' of
             None \<Rightarrow> Inl (OtherError ''TypeError'' ''Cannot read properties of undefined'')
           | Some JNull \<Rightarrow> Inl (OtherError ''TypeError'' ''Cannot read properties of null'')
           | Some c \<Rightarrow> Inr (WordPressClient config (strip_trailing_slash url)))
      | _ \<Rightarrow> Inl (OtherError ''TypeError'' ''config.baseUrl.replace is not a function''))"

record site_manager =
  sites :: "(string \<times> site_config) list"
  clients :: "(string \<times> wordpress_client) list"

text \<open>What a call does besides changing the two maps: clients it constructs and
  connectivity checks it awaits, in order.\<close>

datatype client_event =
    Constructed string wordpress_client
  | Checked string wordpress_client bool

text \<open>\<open>isConnected\<close> is what \<open>client.checkConnection()\<close> resolves to if the call gets
  that far. A throw of the constructor leaves \<open>getClient\<close> as it is.\<close>

definition getClient ::
  "bool \<Rightarrow> site_manager \<Rightarrow> string
     \<Rightarrow> (thrown + wordpress_client) \<times> site_manager \<times> client_event list" where
  "getClient isConnected sm siteId =
     (case map_of (sites sm) siteId of
        None \<Rightarrow>
          (Inl (JsonRpcError (''Unknown WordPress site: '' @ siteId) (-32001)
                  (Some (JObj [(''siteId'', JStr siteId)]))),
           sm, [])
      | Some config \<Rightarrow>
          (case map_of (clients sm) siteId of
             Some client \<Rightarrow> (Inr client, sm, [])
           | None \<Rightarrow>
               (case new_WordPressClient config of
                  Inl e \<Rightarrow> (Inl e, sm, [])
                | Inr client \<Rightarrow>
                    if \<not> isConnected then
                      (Inl (JsonRpcError (''Failed to connect to WordPress site: '' @ siteId)
                              (-32002) (Some (JObj [(''siteId'', JStr siteId)]))),
                       sm, [Constructed siteId client, Checked siteId client False])
                    else
                      (Inr client,
                       sm \<lparr> clients := AList.update siteId client (clients sm) \<rparr>,
                       [Constructed siteId client, Checked siteId client True]))))"

definition getSiteIds :: "site_manager \<Rightarrow> string list" where
  "getSiteIds sm = map fst (sites sm)"


text \<open>
  \<open>sitesConfig\<close> is a plain object filled by \<open>sitesConfig[siteId] = safeConfig\<close>. Its own
  properties are listed, as \<open>JSON.stringify\<close> does, with the array indices first in
  ascending order and the other names after them in the order of their creation. An
  array index is the decimal numeral, without leading zero, of a number below
  \<open>2^32 - 1\<close>. Assigning to \<open>__proto__\<close> sets the prototype and creates no property.
\<close>

definition is_digit :: "char \<Rightarrow> bool" where
  "is_digit c = (c \<in> set ''0123456789'')"

definition decimal :: "string \<Rightarrow> nat" where
  "decimal s = fold (\<lambda>c n. 10 * n + (of_char c - 48)) s 0"

definition array_index :: "string \<Rightarrow> nat option" where
  "array_index s =
     (if s \<noteq> [] \<and> list_all is_digit s \<and> (length s = 1 \<or> hd s \<noteq> CHR ''0'')
         \<and> decimal s < 2 ^ 32 - 1
      then Some (decimal s) else None)"

definition listed_before :: "string \<Rightarrow> string \<Rightarrow> bool" where
  "listed_before k k' =
     (case array_index k of
        None \<Rightarrow> False
      | Some n \<Rightarrow> (case array_index k' of None \<Rightarrow> True | Some n' \<Rightarrow> n < n'))"

fun create_property :: "string \<Rightarrow> json \<Rightarrow> (string \<times> json) list \<Rightarrow> (string \<times> json) list" where
  "create_property k v [] = [(k, v)]"
| "create_property k v (p # ps) =
     (if listed_before k (fst p) then (k, v) # p # ps else p # create_property k v ps)"

definition assign_property ::
  "string \<Rightarrow> json \<Rightarrow> (string \<times> json) list \<Rightarrow> (string \<times> json) list" where
  "assign_property k v ps =
     (if k = ''__proto__'' then ps
      else if map_of ps k \<noteq> None then AList.update k v ps
      else create_property k v ps)"

definition sitesConfig :: "site_manager \<Rightarrow> (string \<times> json) list" where
  "sitesConfig sm =
     fold (\<lambda>(siteId, config). assign_property siteId (JObj (safeConfig config))) (sites sm) []"

text \<open>
  \<open>saveSiteConfigurations\<close> hands the serialisation of \<open>{sites: sitesConfig}\<close> to
  \<open>fs.writeFile\<close>; the document is returned next to the outcome. \<open>writeOk\<close> says whether
  the write succeeds.
\<close>

definition saveSiteConfigurations :: "bool \<Rightarrow> site_manager \<Rightarrow> (thrown + unit) \<times> json" where
  "saveSiteConfigurations writeOk sm =
     (let configData = JObj [(''sites'', JObj (sitesConfig sm))]
      in (if writeOk then Inr ()
          else Inl (OtherError ''Error'' ''Failed to save site configurations''),
          configData))"

text \<open>\<open>stored\<close> is the outcome of \<open>secretsManager.storeCredentials\<close>. The third
  component is the document handed to the file system, if the call got that far.\<close>

definition addSite ::
  "thrown option \<Rightarrow> bool \<Rightarrow> site_manager \<Rightarrow> string \<Rightarrow> site_config \<Rightarrow> wordpress_credentials
     \<Rightarrow> (thrown + unit) \<times> site_manager \<times> json option" where
  "addSite stored writeOk sm siteId config c =
     (case stored of
        Some e \<Rightarrow> (Inl e, sm, None)
      | None \<Rightarrow>
          (let sm' = sm \<lparr> sites := AList.update siteId (with_credentials config c) (sites sm) \<rparr>;
               (r, doc) = saveSiteConfigurations writeOk sm'
           in (r, sm', Some doc)))"

definition removeSite ::
  "bool \<Rightarrow> site_manager \<Rightarrow> string \<Rightarrow> (thrown + unit) \<times> site_manager \<times> json option" where
  "removeSite writeOk sm siteId =
     (let sm1 = (if map_of (clients sm) siteId \<noteq> None
                 then sm \<lparr> clients := AList.delete siteId (clients sm) \<rparr> else sm)
      in if map_of (sites sm1) siteId \<noteq> None then
           (let sm2 = sm1 \<lparr> sites := AList.delete siteId (sites sm1) \<rparr>;
                (r, doc) = saveSiteConfigurations writeOk sm2
            in (r, sm2, Some doc))
         else (Inr (), sm1, None))"

text \<open>A sequence of calls on one manager, each with the outcomes of its I/O, and the
  events of all of them in order.\<close>

datatype site_call =
    GetClient string bool
  | AddSite string site_config wordpress_credentials "thrown option" bool
  | RemoveSite string bool

fun call :: "site_call \<Rightarrow> site_manager \<Rightarrow> site_manager \<times> client_event list" where
  "call (GetClient siteId isConnected) sm =
     (case getClient isConnected sm siteId of (r, sm', evs) \<Rightarrow> (sm', evs))"
| "call (AddSite siteId config c stored writeOk) sm =
     (case addSite stored writeOk sm siteId config c of (r, sm', doc) \<Rightarrow> (sm', []))"
| "call (RemoveSite siteId writeOk) sm =
     (case removeSite writeOk sm siteId of (r, sm', doc) \<Rightarrow> (sm', []))"

fun calls :: "site_call list \<Rightarrow> site_manager \<Rightarrow> site_manager \<times> client_event list" where
  "calls [] sm = (sm, [])"
| "calls (c # cs) sm =
     (case call c sm of (sm', evs) \<Rightarrow>
        (case calls cs sm' of (sm'', evs') \<Rightarrow> (sm'', evs @ evs')))"

text \<open>A manager as constructed: both maps empty. \<open>initialize\<close> fills \<open>sites\<close> only.\<close>

definition loaded_manager :: "(string \<times> site_config) list \<Rightarrow> site_manager" where
  "loaded_manager configured = \<lparr> sites = configured, clients = [] \<rparr>"

section \<open>Notions used to state the properties\<close>

text \<open>A batch element carries an id when it has an \<open>id\<close> property; it is a notification when
  it passes \<open>validateRequest\<close> and has none.\<close>

definition carries_id :: "json \<Rightarrow> bool" where
  "carries_id request = (prop_of request ''id'' \<noteq> None)"

definition is_notification :: "json \<Rightarrow> bool" where
  "is_notification request =
     (valid (validateRequest request) \<and> prop_of request ''id'' = None)"

text \<open>The invocation a request asks for returns rather than throws.\<close>

definition completes :: "registry \<Rightarrow> request_context \<Rightarrow> json \<Rightarrow> bool" where
  "completes methods ctx request =
     (case invokeMethod methods (method_name request) (prop_of request ''params'') ctx of
        Inr r \<Rightarrow> True
      | Inl e \<Rightarrow> False)"




text \<open>Every cached client has a successful connectivity check among the events.\<close>

definition cache_checked :: "site_manager \<Rightarrow> client_event list \<Rightarrow> bool" where
  "cache_checked sm evs =
     (\<forall>(siteId, client) \<in> set (clients sm). Checked siteId client True \<in> set evs)"



section \<open>Concrete inputs\<close>

definition example_context :: request_context where
  "example_context = \<lparr> correlationId = ''req-1'', path = [], authContext = None \<rparr>"

text \<open>A registry holding \<open>ping\<close>, whose schema accepts anything and whose handler
  resolves to \<open>{}\<close>.\<close>

definition ping_registry :: registry where
  "ping_registry =
     registerMethod ''ping'' (\<lambda>p c. Inr (JObj [])) (\<lambda>p. Inr (JObj [])) None []"

definition ping_call :: json where
  "ping_call = JObj [(''jsonrpc'', JStr ''2.0''), (''method'', JStr ''ping''), (''id'', JNum 1)]"

definition ping_notification :: json where
  "ping_notification = JObj [(''jsonrpc'', JStr ''2.0''), (''method'', JStr ''ping'')]"

definition unknown_call :: json where
  "unknown_call = JObj [(''jsonrpc'', JStr ''2.0''), (''method'', JStr ''nope''), (''id'', JStr ''b'')]"

definition old_version_call :: json where
  "old_version_call = JObj [(''jsonrpc'', JStr ''1.0''), (''method'', JStr ''ping''), (''id'', JNum 2)]"

definition old_version_notification :: json where
  "old_version_notification = JObj [(''jsonrpc'', JStr ''1.0''), (''method'', JStr ''ping'')]"

text \<open>A world whose key file cannot be read and whose dates do not parse, at clock
  reading 1000.\<close>

definition unreadable_world :: world where
  "unreadable_world =
     \<lparr> now = 1000, date_time = (\<lambda>v. None), iso_now = ''1970-01-01T00:00:01.000Z'',
       readFile = (\<lambda>p. Inl (OtherError ''Error'' ''ENOENT'')),
       json_parse = (\<lambda>s. Inl (OtherError ''SyntaxError'' ''Unexpected token'')),
       API_KEYS = None, API_KEY = None, API_CLIENT_ID = None, API_PERMISSIONS = None,
       API_AUTHORIZED_SITES = None \<rparr>"

text \<open>The same world with a multi-key variable that is not JSON and no single key.\<close>

definition malformed_env_world :: world where
  "malformed_env_world = unreadable_world \<lparr> API_KEYS := Some ''{oops'' \<rparr>"


definition reissued_key :: json where
  "reissued_key =
     JObj [(''key'', JStr ''k-1''), (''name'', JStr ''reissued''), (''clientId'', JStr ''client-a''),
           (''permissions'', JArr [JStr ''read'']), (''authorizedSites'', JArr [JStr ''*'']),
           (''active'', JBool True), (''created'', JStr ''2024-06-01''), (''expires'', JNull)]"

definition file_manager :: "json list \<Rightarrow> api_key_manager" where
  "file_manager ks =
     \<lparr> source = ''file'', file_path = ''api-keys.json'', keys = Loaded (JArr ks), loading = False,
       lastLoaded = 1000 \<rparr>"

definition env_manager :: "json list \<Rightarrow> api_key_manager" where
  "env_manager ks = file_manager ks \<lparr> source := ''env'' \<rparr>"

definition blog_config :: site_config where
  "blog_config =
     [(''baseUrl'', JStr ''https://blog.example/''),
      (''credentials'',
       JObj [(''username'', JStr ''admin''), (''applicationPassword'', JStr ''s3cret'')])]"

definition shop_config :: site_config where
  "shop_config =
     [(''baseUrl'', JStr ''https://shop.example''),
      (''timeout'', JNum 30),
      (''credentials'',
       JObj [(''username'', JStr ''owner''), (''applicationPassword'', JStr ''hunter2'')])]"

definition blog_client :: wordpress_client where
  "blog_client = WordPressClient blog_config ''https://blog.example''"

definition shop_client :: wordpress_client where
  "shop_client = WordPressClient shop_config ''https://shop.example''"

definition two_sites :: site_manager where
  "two_sites = loaded_manager [(''blog'', blog_config), (''shop'', shop_config)]"

definition shop_cached :: site_manager where
  "shop_cached = two_sites \<lparr> clients := [(''shop'', shop_client)] \<rparr>"

definition shop_then_blog :: "client_event list" where
  "shop_then_blog =
     [Constructed ''shop'' shop_client,
      Checked ''shop'' shop_client True,
      Constructed ''blog'' blog_client,
      Checked ''blog'' blog_client False]"






section \<open>Properties of the JSON-RPC handler\<close>

lemmas ERROR_CODES =
  PARSE_ERROR_def INVALID_REQUEST_def METHOD_NOT_FOUND_def INVALID_PARAMS_def
  INTERNAL_ERROR_def WP_AUTH_ERROR_def WP_PERMISSION_ERROR_def WP_RESOURCE_NOT_FOUND_def

lemmas example_requests =
  ping_call_def ping_notification_def unknown_call_def old_version_call_def
  old_version_notification_def

lemma valid_not_array: "valid (validateRequest (JArr xs)) = False"
  by (simp add: validateRequest_def is_object_or_array_def)

lemma processRequest_not_array:
  "\<not> (\<exists>xs. request = JArr xs) \<Longrightarrow>
     processRequest d ms request ctx = processSingle d ms request ctx"
  by (cases request) auto

lemma processSingle_id:
  assumes "prop_of request ''id'' = Some i" and "valid (validateRequest request)"
  shows "\<exists>resp. processSingle d ms request ctx = Single resp \<and> response_id resp = Some i"
  using assms
  by (auto simp: processSingle_def Let_def handleMethodError_def createErrorResponse_def
      split: sum.splits thrown.splits)

lemma processSingle_invalid:
  assumes "\<not> valid (validateRequest request)"
  shows "processSingle d ms request ctx =
           Single (ErrorResponse INVALID_REQUEST ''Invalid Request''
                     (map_option JStr (vr_error (validateRequest request)))
                     (vr_id (validateRequest request)))"
  using assms by (simp add: processSingle_def Let_def createErrorResponse_def)

lemma vr_id_invalid:
  assumes "prop_of request ''id'' = Some i" and "id_type_ok i"
  shows "vr_id (validateRequest request) = Some i"
proof -
  obtain ps where "request = JObj ps" using assms(1) by (cases request) auto
  then show ?thesis using assms
    by (simp add: validateRequest_def is_object_or_array_def)
qed

lemma notification_null:
  assumes "is_notification request" and "completes ms ctx request"
  shows "processRequest d ms request ctx = NullReply"
proof -
  have na: "\<not> (\<exists>xs. request = JArr xs)"
    using assms(1) by (auto simp: is_notification_def valid_not_array)
  show ?thesis
    using assms unfolding processRequest_not_array[OF na]
    by (auto simp: processSingle_def Let_def is_notification_def completes_def split: sum.splits)
qed

lemma other_not_null:
  assumes "\<not> is_notification request"
  shows "processRequest d ms request ctx \<noteq> NullReply"
proof (cases "\<exists>xs. request = JArr xs")
  case True
  then show ?thesis by auto
next
  case False
  show ?thesis
  proof (cases "valid (validateRequest request)")
    case True
    then obtain i where "prop_of request ''id'' = Some i"
      using assms by (auto simp: is_notification_def)
    from processSingle_id[OF this True, of d ms ctx] show ?thesis
      unfolding processRequest_not_array[OF False] by auto
  next
    case invalid: False
    show ?thesis
      unfolding processRequest_not_array[OF False] processSingle_invalid[OF invalid] by simp
  qed
qed

lemma batch_filter:
  assumes "\<forall>r \<in> set requests. is_notification r \<longrightarrow> completes ms ctx r"
  shows "filter (\<lambda>response. response \<noteq> NullReply)
           (map (\<lambda>request. processRequest d ms request ctx) requests)
       = map (\<lambda>request. processRequest d ms request ctx)
           (filter (\<lambda>request. \<not> is_notification request) requests)"
  using assms
proof (induction requests)
  case Nil
  then show ?case by simp
next
  case (Cons r rs)
  show ?case
  proof (cases "is_notification r")
    case True
    then have "processRequest d ms r ctx = NullReply"
      using Cons.prems notification_null by simp
    then show ?thesis using Cons True by simp
  next
    case False
    then show ?thesis using Cons other_not_null[OF False, of d ms ctx] by simp
  qed
qed

lemma valid_filter:
  assumes "\<forall>r \<in> set requests. valid (validateRequest r)"
  shows "filter (\<lambda>request. \<not> is_notification request) requests = filter carries_id requests"
  using assms by (intro filter_cong) (auto simp: is_notification_def carries_id_def)

text \<open>
  C1. A notification must never be answered, also when its invocation throws. The
  notification branch of \<open>processRequest\<close> has no \<open>try\<close> of its own: for a notification
  naming a method that is not registered, the throw of \<open>invokeMethod\<close> reaches the outer
  \<open>catch\<close>, and the call resolves to an INTERNAL_ERROR response with \<open>id\<close> null instead of
  \<open>null\<close>.
\<close>

theorem notification_unknown_method_is_answered:
  "processRequest False []
     (JObj [(''jsonrpc'', JStr ''2.0''), (''method'', JStr ''nope'')]) example_context
   = Single (ErrorResponse (-32603) ''Internal error''
               (Some (JObj [(''message'', JStr ''Method not found: nope'')])) (Some JNull))"
  by (simp add: processSingle_def validateRequest_def is_object_or_array_def
      is_nonempty_string_def invokeMethod_def method_name_def createErrorResponse_def
      INTERNAL_ERROR_def)

text \<open>
  C2. The empty batch is to be answered by one INVALID_REQUEST response with \<open>id\<close> null
  that is not wrapped in an array. \<open>processBatchRequest\<close> returns that response as the
  only element of an array.
\<close>

theorem empty_batch_is_wrapped:
  "processRequest development methods (JArr []) ctx
   = Batch [Single (ErrorResponse (-32600) ''Invalid Request: Empty batch'' None (Some JNull))]"
  by (simp add: INVALID_REQUEST_def)

text \<open>
  C3. Registering a name a second time is to fail. \<open>registerMethod\<close> cannot fail: the
  second registration replaces the first, and the list of registered names is what it
  was after the first.
\<close>

theorem second_registration_overwrites:
  "map_of (registerMethod n h2 s2 d2 (registerMethod n h1 s1 d1 methods)) n
     = Some \<lparr> handler = h2, schema = s2, name = n, description = d2 \<rparr>
   \<and> getRegisteredMethods (registerMethod n h2 s2 d2 (registerMethod n h1 s1 d1 methods))
     = getRegisteredMethods (registerMethod n h1 s1 d1 methods)"
  by (simp add: registerMethod_def getRegisteredMethods_def update_conv' update_keys)

text \<open>
  C4, as amended. For a non-empty batch in which the invocation of every notification
  returns, the array holds one entry for every element that is not a notification
  (every request carrying an id, and every element that fails validation), in the
  order of the input; an entry for a valid request with an id is a response with that
  id. When all elements pass validation, the length of the array is the number of
  requests carrying an id.
\<close>

theorem batch_responses_in_order:
  assumes "requests \<noteq> []"
    and "\<forall>r \<in> set requests. is_notification r \<longrightarrow> completes methods (createChild ctx None) r"
  shows "processRequest development methods (JArr requests) ctx =
           Batch (map (\<lambda>request. processRequest development methods request (createChild ctx None))
                    (filter (\<lambda>request. \<not> is_notification request) requests))
       \<and> (\<forall>r \<in> set requests. \<not> is_notification r \<longrightarrow>
             processRequest development methods r (createChild ctx None) \<noteq> NullReply)
       \<and> (\<forall>r \<in> set requests. \<forall>i. valid (validateRequest r) \<and> prop_of r ''id'' = Some i \<longrightarrow>
             (\<exists>resp. processRequest development methods r (createChild ctx None) = Single resp
                    \<and> response_id resp = Some i))
       \<and> ((\<forall>r \<in> set requests. valid (validateRequest r)) \<longrightarrow>
             (\<exists>rs. processRequest development methods (JArr requests) ctx = Batch rs
                  \<and> length rs = length (filter carries_id requests)))"
proof -
  have 1: "processRequest development methods (JArr requests) ctx =
           Batch (map (\<lambda>request. processRequest development methods request (createChild ctx None))
                    (filter (\<lambda>request. \<not> is_notification request) requests))"
    using assms(1) batch_filter[OF assms(2)] by simp
  have 2: "\<forall>r \<in> set requests. \<not> is_notification r \<longrightarrow>
             processRequest development methods r (createChild ctx None) \<noteq> NullReply"
    using other_not_null by blast
  have 3: "\<forall>r \<in> set requests. \<forall>i. valid (validateRequest r) \<and> prop_of r ''id'' = Some i \<longrightarrow>
             (\<exists>resp. processRequest development methods r (createChild ctx None) = Single resp
                    \<and> response_id resp = Some i)"
  proof (intro ballI allI impI)
    fix r i
    assume a: "valid (validateRequest r) \<and> prop_of r ''id'' = Some i"
    then have na: "\<not> (\<exists>xs. r = JArr xs)" by (auto simp: valid_not_array)
    show "\<exists>resp. processRequest development methods r (createChild ctx None) = Single resp
                \<and> response_id resp = Some i"
      unfolding processRequest_not_array[OF na] using processSingle_id a by blast
  qed
  have 4: "(\<forall>r \<in> set requests. valid (validateRequest r)) \<longrightarrow>
             (\<exists>rs. processRequest development methods (JArr requests) ctx = Batch rs
                  \<and> length rs = length (filter carries_id requests))"
    using 1 valid_filter by auto
  show ?thesis using 1 2 3 4 by blast
qed

text \<open>The batch \<open>[ping with id 1, ping without id, nope with id "b"]\<close> against a registry
  holding \<open>ping\<close>: two responses, for the first and the third element.\<close>

theorem batch_responses_in_order_witness:
  "[ping_call, ping_notification, unknown_call] \<noteq> []
   \<and> filter is_notification [ping_call, ping_notification, unknown_call] = [ping_notification]
   \<and> completes ping_registry (createChild example_context None) ping_notification
   \<and> processRequest False ping_registry
        (JArr [ping_call, ping_notification, unknown_call]) example_context
      = Batch [Single (SuccessResponse (JObj []) (Some (JNum 1))),
               Single (ErrorResponse (-32601) ''Method not found: nope'' None (Some (JStr ''b'')))]"
proof -
  have n: "is_notification ping_notification" "\<not> is_notification ping_call"
    "\<not> is_notification unknown_call"
    by (simp_all add: is_notification_def validateRequest_def is_object_or_array_def
        is_nonempty_string_def example_requests)
  have c: "completes ping_registry (createChild example_context None) ping_notification"
    by (simp add: completes_def invokeMethod_def ping_registry_def registerMethod_def
        method_name_def example_requests)
  have h1: "[ping_call, ping_notification, unknown_call] \<noteq> []" by simp
  have h2: "\<forall>r \<in> set [ping_call, ping_notification, unknown_call].
              is_notification r \<longrightarrow> completes ping_registry (createChild example_context None) r"
    using n c by simp
  have single:
    "processRequest False ping_registry ping_call (createChild example_context None)
       = Single (SuccessResponse (JObj []) (Some (JNum 1)))"
    "processRequest False ping_registry unknown_call (createChild example_context None)
       = Single (ErrorResponse (-32601) ''Method not found: nope'' None (Some (JStr ''b'')))"
    by (simp_all add: example_requests processSingle_def validateRequest_def
        is_object_or_array_def is_nonempty_string_def id_type_ok_def invokeMethod_def
        method_name_def ping_registry_def registerMethod_def handleMethodError_def
        createErrorResponse_def METHOD_NOT_FOUND_def)
  from batch_responses_in_order[OF h1 h2, of False]
  have "processRequest False ping_registry
          (JArr [ping_call, ping_notification, unknown_call]) example_context
        = Batch (map (\<lambda>request. processRequest False ping_registry request
                                  (createChild example_context None))
                   (filter (\<lambda>request. \<not> is_notification request)
                      [ping_call, ping_notification, unknown_call]))"
    by blast
  then show ?thesis using n c single by simp
qed

text \<open>The claim as written counts the requests carrying an id. An element that fails
  validation is answered although it carries none.\<close>

theorem batch_length_counterexample:
  "\<not> (\<exists>rs. processRequest False [] (JArr [old_version_notification]) example_context = Batch rs
           \<and> length rs = length (filter carries_id [old_version_notification]))"
  by (simp add: processSingle_def validateRequest_def is_object_or_array_def carries_id_def
      createErrorResponse_def example_requests)

text \<open>
  C8. A single envelope whose \<open>id\<close> is present and is a string, a number or null is
  answered by one response carrying that \<open>id\<close>, whatever the outcome; when the version
  is not "2.0" that response is the error -32600.
\<close>

theorem response_carries_request_id:
  assumes "prop_of request ''id'' = Some i" and "id_type_ok i"
  shows "\<exists>resp. processRequest development methods request ctx = Single resp
              \<and> response_id resp = Some i
              \<and> (prop_of request ''jsonrpc'' \<noteq> Some (JStr ''2.0'') \<longrightarrow>
                   error_code resp = Some (-32600))"
proof -
  have na: "\<not> (\<exists>xs. request = JArr xs)" using assms(1) by auto
  show ?thesis
  proof (cases "valid (validateRequest request)")
    case True
    then have v: "prop_of request ''jsonrpc'' = Some (JStr ''2.0'')"
      by (auto simp: validateRequest_def split: if_splits)
    from processSingle_id[OF assms(1) True, of development methods ctx] v show ?thesis
      unfolding processRequest_not_array[OF na] by auto
  next
    case False
    show ?thesis
      unfolding processRequest_not_array[OF na] processSingle_invalid[OF False]
      using vr_id_invalid[OF assms] by (simp add: INVALID_REQUEST_def)
  qed
qed

theorem response_carries_request_id_witness:
  "prop_of old_version_call ''id'' = Some (JNum 2) \<and> id_type_ok (JNum 2)
   \<and> (\<exists>resp. processRequest False ping_registry old_version_call example_context = Single resp
            \<and> response_id resp = Some (JNum 2) \<and> error_code resp = Some (-32600))"
proof -
  have h1: "prop_of old_version_call ''id'' = Some (JNum 2)"
    by (simp add: example_requests)
  have h2: "id_type_ok (JNum 2)" by (simp add: id_type_ok_def)
  have v: "prop_of old_version_call ''jsonrpc'' \<noteq> Some (JStr ''2.0'')"
    by (simp add: example_requests)
  from response_carries_request_id[OF h1 h2, of False ping_registry example_context] v h1 h2
  show ?thesis by blast
qed

section \<open>Properties of the API key manager\<close>


lemma failed_load_restores:
  assumes "load_from_source w (m \<lparr> loading := True \<rparr>) = Inl e"
  shows "loadKeys w m = m"
    and "loadKeys_finish w (m \<lparr> loading := True \<rparr>) = m \<lparr> loading := False \<rparr>"
  using assms
  by (cases "loading m"; simp add: loadKeys_def loadKeys_start_def loadKeys_finish_def)+

lemma file_failure_throws:
  assumes "source m = ''file''"
    and "(\<exists>e. readFile w (file_path m) = Inl e)
       \<or> (\<exists>data e. readFile w (file_path m) = Inr data \<and> json_parse w data = Inl e)
       \<or> (\<exists>data. readFile w (file_path m) = Inr data \<and> json_parse w data = Inr JNull)"
  shows "\<exists>e. load_from_source w (m \<lparr> loading := True \<rparr>) = Inl e"
  using assms by (auto simp: load_from_source_def loadKeysFromFile_def keys_or_empty_def)

lemma validate_ignores_flag:
  assumes "source m = ''file''"
  shows "fst (validateApiKey w (m \<lparr> loading := b \<rparr>) apiKey) = fst (validateApiKey w m apiKey)"
  using assms by (simp add: validateApiKey_def Let_def reloadIfNeeded_def loadKeys_start_def)

lemma env_parse_failure_falls_back:
  assumes "source m = ''env''" and "\<not> loading m"
    and "truthy (API_KEYS w) = Some apiKeys" and "json_parse w apiKeys = Inl e"
  shows "loadKeys w m = (single_key_format w m) \<lparr> lastLoaded := now w \<rparr>"
  using assms
  by (simp add: loadKeys_def loadKeys_start_def loadKeys_finish_def load_from_source_def
      loadKeysFromEnv_def single_key_format_def split: option.splits)







text \<open>
  C9, as amended. With the file source, when a load fails (the read throws,
  \<open>JSON.parse\<close> throws, or the document is \<open>null\<close>), \<open>loadKeys\<close> returns normally with the
  manager as it was before the attempt: same keys, same \<open>lastLoaded\<close>, flag cleared.
  Hence every later \<open>validateApiKey\<close> behaves as it would have without the attempt, and a
  validation made while the load is in flight gives the same result too. With the
  \<open>env\<close> source a throw of \<open>JSON.parse\<close> on the multi-key variable is swallowed as well,
  but the load goes on to the single-key format and completes: the key set becomes the
  single key, or empty.
\<close>

theorem failed_reload_keeps_key_set:
  "(source m = ''file''
    \<and> ((\<exists>e. readFile w (file_path m) = Inl e)
       \<or> (\<exists>data e. readFile w (file_path m) = Inr data \<and> json_parse w data = Inl e)
       \<or> (\<exists>data. readFile w (file_path m) = Inr data \<and> json_parse w data = Inr JNull))
    \<longrightarrow> loadKeys w m = m
       \<and> keys (loadKeys_finish w (m \<lparr> loading := True \<rparr>)) = keys m
       \<and> lastLoaded (loadKeys_finish w (m \<lparr> loading := True \<rparr>)) = lastLoaded m
       \<and> \<not> loading (loadKeys_finish w (m \<lparr> loading := True \<rparr>))
       \<and> (\<forall>w' apiKey. validateApiKey w' (loadKeys w m) apiKey = validateApiKey w' m apiKey)
       \<and> (\<forall>w' apiKey. fst (validateApiKey w' (loadKeys_finish w (m \<lparr> loading := True \<rparr>)) apiKey)
                       = fst (validateApiKey w' m apiKey))
       \<and> (\<forall>w' apiKey. fst (validateApiKey w' (m \<lparr> loading := True \<rparr>) apiKey)
                       = fst (validateApiKey w' m apiKey)))
 \<and> (source m = ''env'' \<and> \<not> loading m
    \<and> (\<exists>apiKeys e. truthy (API_KEYS w) = Some apiKeys \<and> json_parse w apiKeys = Inl e)
    \<longrightarrow> loadKeys w m = (single_key_format w m) \<lparr> lastLoaded := now w \<rparr>
       \<and> keys (loadKeys w m)
           = (case truthy (API_KEY w) of
                Some singleKey \<Rightarrow> Loaded (JArr [single_key w singleKey])
              | None \<Rightarrow> Loaded (JArr [])))"
proof (intro conjI impI)
  assume a: "source m = ''file''
    \<and> ((\<exists>e. readFile w (file_path m) = Inl e)
       \<or> (\<exists>data e. readFile w (file_path m) = Inr data \<and> json_parse w data = Inl e)
       \<or> (\<exists>data. readFile w (file_path m) = Inr data \<and> json_parse w data = Inr JNull))"
  then obtain e where e: "load_from_source w (m \<lparr> loading := True \<rparr>) = Inl e"
    using file_failure_throws[of m w] by blast
  note r = failed_load_restores[OF e]
  from a have f: "source m = ''file''" by simp
  show "loadKeys w m = m" by (rule r(1))
  show "keys (loadKeys_finish w (m \<lparr> loading := True \<rparr>)) = keys m" by (simp add: r)
  show "lastLoaded (loadKeys_finish w (m \<lparr> loading := True \<rparr>)) = lastLoaded m" by (simp add: r)
  show "\<not> loading (loadKeys_finish w (m \<lparr> loading := True \<rparr>))" by (simp add: r)
  show "\<forall>w' apiKey. validateApiKey w' (loadKeys w m) apiKey = validateApiKey w' m apiKey"
    by (simp add: r)
  show "\<forall>w' apiKey. fst (validateApiKey w' (loadKeys_finish w (m \<lparr> loading := True \<rparr>)) apiKey)
                       = fst (validateApiKey w' m apiKey)"
    using validate_ignores_flag[OF f] by (simp add: r)
  show "\<forall>w' apiKey. fst (validateApiKey w' (m \<lparr> loading := True \<rparr>) apiKey)
                       = fst (validateApiKey w' m apiKey)"
    using validate_ignores_flag[OF f] by simp
next
  assume b: "source m = ''env'' \<and> \<not> loading m
    \<and> (\<exists>apiKeys e. truthy (API_KEYS w) = Some apiKeys \<and> json_parse w apiKeys = Inl e)"
  then obtain apiKeys e where p: "truthy (API_KEYS w) = Some apiKeys" "json_parse w apiKeys = Inl e"
    by blast
  from b have s: "source m = ''env''" "\<not> loading m" by simp_all
  show l: "loadKeys w m = (single_key_format w m) \<lparr> lastLoaded := now w \<rparr>"
    by (rule env_parse_failure_falls_back[OF s p])
  show "keys (loadKeys w m)
           = (case truthy (API_KEY w) of
                Some singleKey \<Rightarrow> Loaded (JArr [single_key w singleKey])
              | None \<Rightarrow> Loaded (JArr []))"
    unfolding l by (simp add: single_key_format_def split: option.splits)
qed

text \<open>A key file that cannot be read leaves the one loaded key in place; a multi-key
  variable that is not JSON, with no single key set, empties the key set.\<close>

theorem failed_reload_keeps_key_set_witness:
  "source (file_manager [reissued_key]) = ''file''
   \<and> readFile unreadable_world (file_path (file_manager [reissued_key]))
       = Inl (OtherError ''Error'' ''ENOENT'')
   \<and> loadKeys unreadable_world (file_manager [reissued_key]) = file_manager [reissued_key]
   \<and> keys (loadKeys_finish unreadable_world (file_manager [reissued_key] \<lparr> loading := True \<rparr>))
       = Loaded (JArr [reissued_key])
   \<and> source (env_manager [reissued_key]) = ''env''
   \<and> \<not> loading (env_manager [reissued_key])
   \<and> truthy (API_KEYS malformed_env_world) = Some ''{oops''
   \<and> json_parse malformed_env_world ''{oops''
       = Inl (OtherError ''SyntaxError'' ''Unexpected token'')
   \<and> keys (loadKeys malformed_env_world (env_manager [reissued_key])) = Loaded (JArr [])"
proof -
  have h1: "source (file_manager [reissued_key]) = ''file''"
    by (simp add: file_manager_def)
  have rd: "readFile unreadable_world (file_path (file_manager [reissued_key]))
              = Inl (OtherError ''Error'' ''ENOENT'')"
    by (simp add: unreadable_world_def)
  have k: "keys (file_manager [reissued_key]) = Loaded (JArr [reissued_key])"
    by (simp add: file_manager_def)
  from failed_reload_keeps_key_set[of "file_manager [reissued_key]" unreadable_world]
  have "source (file_manager [reissued_key]) = ''file''
    \<and> ((\<exists>e. readFile unreadable_world (file_path (file_manager [reissued_key])) = Inl e)
       \<or> (\<exists>data e. readFile unreadable_world (file_path (file_manager [reissued_key])) = Inr data
                  \<and> json_parse unreadable_world data = Inl e)
       \<or> (\<exists>data. readFile unreadable_world (file_path (file_manager [reissued_key])) = Inr data
                \<and> json_parse unreadable_world data = Inr JNull))
    \<longrightarrow> loadKeys unreadable_world (file_manager [reissued_key]) = file_manager [reissued_key]
       \<and> keys (loadKeys_finish unreadable_world (file_manager [reissued_key] \<lparr> loading := True \<rparr>))
           = keys (file_manager [reissued_key])"
    by simp
  with h1 rd k
  have fl: "loadKeys unreadable_world (file_manager [reissued_key]) = file_manager [reissued_key]
       \<and> keys (loadKeys_finish unreadable_world (file_manager [reissued_key] \<lparr> loading := True \<rparr>))
           = Loaded (JArr [reissued_key])"
    by simp
  have e1: "source (env_manager [reissued_key]) = ''env''"
    and e2: "\<not> loading (env_manager [reissued_key])"
    by (simp_all add: env_manager_def file_manager_def)
  have e3: "truthy (API_KEYS malformed_env_world) = Some ''{oops''"
    by (simp add: truthy_def malformed_env_world_def)
  have e4: "json_parse malformed_env_world ''{oops''
              = Inl (OtherError ''SyntaxError'' ''Unexpected token'')"
    by (simp add: malformed_env_world_def unreadable_world_def)
  have e5: "truthy (API_KEY malformed_env_world) = None"
    by (simp add: truthy_def malformed_env_world_def unreadable_world_def)
  have hyp: "source (env_manager [reissued_key]) = ''env'' \<and> \<not> loading (env_manager [reissued_key])
    \<and> (\<exists>apiKeys e. truthy (API_KEYS malformed_env_world) = Some apiKeys
          \<and> json_parse malformed_env_world apiKeys = Inl e)"
    by (intro conjI exI) (rule e1, rule e2, rule e3, rule e4)
  note t2 = failed_reload_keeps_key_set
              [of "env_manager [reissued_key]" malformed_env_world, THEN conjunct2]
  from hyp t2
  have "loadKeys malformed_env_world (env_manager [reissued_key])
          = (single_key_format malformed_env_world (env_manager [reissued_key]))
              \<lparr> lastLoaded := now malformed_env_world \<rparr>
        \<and> keys (loadKeys malformed_env_world (env_manager [reissued_key]))
           = (case truthy (API_KEY malformed_env_world) of
                Some singleKey \<Rightarrow> Loaded (JArr [single_key malformed_env_world singleKey])
              | None \<Rightarrow> Loaded (JArr []))"
    by (rule rev_mp)
  then have "keys (loadKeys malformed_env_world (env_manager [reissued_key]))
           = (case truthy (API_KEY malformed_env_world) of
                Some singleKey \<Rightarrow> Loaded (JArr [single_key malformed_env_world singleKey])
              | None \<Rightarrow> Loaded (JArr []))"
    by (rule conjunct2)
  then have ev: "keys (loadKeys malformed_env_world (env_manager [reissued_key])) = Loaded (JArr [])"
    by (simp add: e5)
  from fl have f1: "loadKeys unreadable_world (file_manager [reissued_key])
                        = file_manager [reissued_key]"
    by (rule conjunct1)
  from fl have f2: "keys (loadKeys_finish unreadable_world
                              (file_manager [reissued_key] \<lparr> loading := True \<rparr>))
                        = Loaded (JArr [reissued_key])"
    by (rule conjunct2)
  show ?thesis
    by (intro conjI) (rule h1, rule rd, rule f1, rule f2, rule e1, rule e2, rule e3, rule e4, rule ev)
qed

text \<open>The claim as written covers every throw of \<open>JSON.parse\<close> during a reload. With the
  \<open>env\<close> source and a multi-key variable that is not JSON, the reload replaces the one
  loaded key by none, and the key that was valid is rejected afterwards.\<close>

theorem failed_reload_env_counterexample:
  "json_parse malformed_env_world ''{oops'' = Inl (OtherError ''SyntaxError'' ''Unexpected token'')
   \<and> keys (env_manager [reissued_key]) = Loaded (JArr [reissued_key])
   \<and> keys (loadKeys malformed_env_world (env_manager [reissued_key])) = Loaded (JArr [])
   \<and> fst (validateApiKey malformed_env_world (env_manager [reissued_key]) ''k-1'')
       \<noteq> Inr invalid_key
   \<and> fst (validateApiKey malformed_env_world
             (loadKeys malformed_env_world (env_manager [reissued_key])) ''k-1'')
       = Inr invalid_key"
proof -
  have l: "loadKeys malformed_env_world (env_manager [reissued_key])
             = env_manager [] \<lparr> lastLoaded := 1000 \<rparr>"
    by (simp add: loadKeys_def loadKeys_start_def loadKeys_finish_def load_from_source_def
        loadKeysFromEnv_def single_key_format_def truthy_def malformed_env_world_def
        unreadable_world_def env_manager_def file_manager_def)
  have v: "fst (validateApiKey malformed_env_world (env_manager [reissued_key]) ''k-1'')
             \<noteq> Inr invalid_key"
    by (simp add: validateApiKey_def reloadIfNeeded_def malformed_env_world_def
        unreadable_world_def env_manager_def file_manager_def reissued_key_def
        prop_truthy_def json_truthy_def expired_def invalid_key_def RELOAD_INTERVAL_def)
  have v': "fst (validateApiKey malformed_env_world (env_manager [] \<lparr> lastLoaded := 1000 \<rparr>) ''k-1'')
             = Inr invalid_key"
    by (simp add: validateApiKey_def reloadIfNeeded_def malformed_env_world_def
        unreadable_world_def env_manager_def file_manager_def RELOAD_INTERVAL_def)
  show ?thesis
    unfolding l using v v'
    by (simp add: malformed_env_world_def unreadable_world_def env_manager_def file_manager_def)
qed

section \<open>Properties of the site manager\<close>

lemma set_update_cases:
  "(k', v') \<in> set (AList.update k v al) \<Longrightarrow> (k', v') = (k, v) \<or> (k', v') \<in> set al"
  by (induction al) (auto split: if_splits)

lemma set_delete_subset: "x \<in> set (AList.delete k al) \<Longrightarrow> x \<in> set al"
  by (auto simp: AList.delete_eq)

lemma getClient_keeps_checked:
  assumes "cache_checked sm evs" and "getClient b sm siteId = (r, sm', evs')"
  shows "cache_checked sm' (evs @ evs')"
  using assms
  by (auto simp: getClient_def cache_checked_def
      split: option.splits sum.splits if_splits dest!: set_update_cases)

lemma addSite_clients:
  "addSite stored writeOk sm siteId config c = (r, sm', doc) \<Longrightarrow> clients sm' = clients sm"
  by (auto simp: addSite_def Let_def split: option.splits prod.splits)

lemma removeSite_clients:
  "removeSite writeOk sm siteId = (r, sm', doc) \<Longrightarrow> set (clients sm') \<subseteq> set (clients sm)"
  by (auto simp: removeSite_def Let_def split: prod.splits if_splits dest: set_delete_subset)

lemma call_keeps_checked:
  assumes "cache_checked sm evs" and "call c sm = (sm', evs')"
  shows "cache_checked sm' (evs @ evs')"
proof (cases c)
  case (GetClient siteId b)
  then show ?thesis
    using assms getClient_keeps_checked[of sm evs b siteId] by (auto split: prod.splits)
next
  case (AddSite siteId config cr stored writeOk)
  then show ?thesis
    using assms addSite_clients[of stored writeOk sm siteId config cr]
    by (auto simp: cache_checked_def split: prod.splits)
next
  case (RemoveSite siteId writeOk)
  then show ?thesis
    using assms removeSite_clients[of writeOk sm siteId]
    by (auto simp: cache_checked_def split: prod.splits)
qed

lemma calls_keep_checked:
  "cache_checked sm evs \<Longrightarrow> calls cs sm = (sm', evs') \<Longrightarrow> cache_checked sm' (evs @ evs')"
proof (induction cs arbitrary: sm evs sm' evs')
  case Nil
  then show ?case by simp
next
  case (Cons c cs)
  obtain sm1 e1 where c1: "call c sm = (sm1, e1)" by (cases "call c sm")
  obtain sm2 e2 where c2: "calls cs sm1 = (sm2, e2)" by (cases "calls cs sm1")
  from Cons.prems(2) c1 c2 have eq: "sm' = sm2" "evs' = e1 @ e2" by auto
  have "cache_checked sm1 (evs @ e1)" by (rule call_keeps_checked[OF Cons.prems(1) c1])
  from Cons.IH[OF this c2] show ?case using eq by simp
qed

lemma getClient_failed_check:
  assumes "map_of (sites sm) siteId = Some config" and "map_of (clients sm) siteId = None"
    and "new_WordPressClient config = Inr client"
  shows "getClient False sm siteId =
           (Inl (JsonRpcError (''Failed to connect to WordPress site: '' @ siteId) (-32002)
                   (Some (JObj [(''siteId'', JStr siteId)]))),
            sm, [Constructed siteId client, Checked siteId client False])"
    and "\<exists>r sm'. getClient b sm siteId =
           (r, sm', [Constructed siteId client, Checked siteId client b])"
  using assms by (simp_all add: getClient_def)














lemma example_clients:
  "new_WordPressClient blog_config = Inr blog_client"
  "new_WordPressClient shop_config = Inr shop_client"
  by (simp_all add: new_WordPressClient_def strip_trailing_slash_def blog_config_def
      shop_config_def blog_client_def shop_client_def)

text \<open>
  C6. Starting from an empty cache, after any sequence of \<open>getClient\<close>, \<open>addSite\<close> and
  \<open>removeSite\<close> calls every cached client has had a successful connectivity check.
  For a configured site without a cached client whose client can be constructed, a
  \<open>getClient\<close> whose check fails throws -32002 and leaves the manager as it was, so the
  next \<open>getClient\<close> for that site constructs a client and checks it again.
\<close>

theorem cache_holds_checked_clients:
  assumes "clients sm0 = []" and "calls cs sm0 = (sm, evs)"
  shows "cache_checked sm evs
       \<and> (\<forall>siteId config client.
             map_of (sites sm) siteId = Some config \<and> map_of (clients sm) siteId = None
               \<and> new_WordPressClient config = Inr client \<longrightarrow>
             (\<exists>m d evs'. getClient False sm siteId = (Inl (JsonRpcError m (-32002) d), sm, evs'))
             \<and> (\<forall>b. \<exists>r sm'. getClient b sm siteId =
                    (r, sm', [Constructed siteId client, Checked siteId client b])))"
proof -
  have "cache_checked sm0 []" using assms(1) by (simp add: cache_checked_def)
  from calls_keep_checked[OF this assms(2)] have inv: "cache_checked sm evs" by simp
  have rest: "\<forall>siteId config client.
             map_of (sites sm) siteId = Some config \<and> map_of (clients sm) siteId = None
               \<and> new_WordPressClient config = Inr client \<longrightarrow>
             (\<exists>m d evs'. getClient False sm siteId = (Inl (JsonRpcError m (-32002) d), sm, evs'))
             \<and> (\<forall>b. \<exists>r sm'. getClient b sm siteId =
                    (r, sm', [Constructed siteId client, Checked siteId client b]))"
    using getClient_failed_check by blast
  from inv rest show ?thesis by (rule conjI)
qed

text \<open>The shop connects, the blog does not: the cache holds the shop's client only, and
  a second request for the blog constructs and checks a client again.\<close>

theorem cache_holds_checked_clients_witness:
  "clients two_sites = []
   \<and> calls [GetClient ''shop'' True, GetClient ''blog'' False] two_sites
       = (shop_cached, shop_then_blog)
   \<and> cache_checked shop_cached shop_then_blog
   \<and> map_of (sites shop_cached) ''blog'' = Some blog_config
   \<and> map_of (clients shop_cached) ''blog'' = None
   \<and> new_WordPressClient blog_config = Inr blog_client
   \<and> (\<exists>m d evs'. getClient False shop_cached ''blog''
                     = (Inl (JsonRpcError m (-32002) d), shop_cached, evs'))
   \<and> (\<exists>r sm'. getClient True shop_cached ''blog''
        = (r, sm', [Constructed ''blog'' blog_client, Checked ''blog'' blog_client True]))"
proof -
  have h1: "clients two_sites = []"
    by (simp add: two_sites_def loaded_manager_def)
  have h2: "calls [GetClient ''shop'' True, GetClient ''blog'' False] two_sites
              = (shop_cached, shop_then_blog)"
    by (simp add: getClient_def example_clients two_sites_def loaded_manager_def
        shop_cached_def shop_then_blog_def)
  have s1: "map_of (sites shop_cached) ''blog'' = Some blog_config"
    and s2: "map_of (clients shop_cached) ''blog'' = None"
    by (simp_all add: two_sites_def loaded_manager_def shop_cached_def)
  note s3 = example_clients(1)
  from s1 s2 s3
  have s: "map_of (sites shop_cached) ''blog'' = Some blog_config
           \<and> map_of (clients shop_cached) ''blog'' = None
           \<and> new_WordPressClient blog_config = Inr blog_client"
    by (intro conjI)
  note t = cache_holds_checked_clients[OF h1 h2]
  from t have c: "cache_checked shop_cached shop_then_blog" by (rule conjunct1)
  from t have "map_of (sites shop_cached) ''blog'' = Some blog_config
                 \<and> map_of (clients shop_cached) ''blog'' = None
                 \<and> new_WordPressClient blog_config = Inr blog_client \<longrightarrow>
             (\<exists>m d evs'. getClient False shop_cached ''blog''
                            = (Inl (JsonRpcError m (-32002) d), shop_cached, evs'))
             \<and> (\<forall>b. \<exists>r sm'. getClient b shop_cached ''blog'' =
                    (r, sm', [Constructed ''blog'' blog_client, Checked ''blog'' blog_client b]))"
    by (elim conjE allE)
  with s have g: "(\<exists>m d evs'. getClient False shop_cached ''blog''
                            = (Inl (JsonRpcError m (-32002) d), shop_cached, evs'))
             \<and> (\<forall>b. \<exists>r sm'. getClient b shop_cached ''blog'' =
                    (r, sm', [Constructed ''blog'' blog_client, Checked ''blog'' blog_client b]))"
    by (rule rev_mp)
  from g have g1: "\<exists>m d evs'. getClient False shop_cached ''blog''
                            = (Inl (JsonRpcError m (-32002) d), shop_cached, evs')"
    by (rule conjunct1)
  from g have "\<forall>b. \<exists>r sm'. getClient b shop_cached ''blog'' =
                    (r, sm', [Constructed ''blog'' blog_client, Checked ''blog'' blog_client b])"
    by (rule conjunct2)
  then have g2: "\<exists>r sm'. getClient True shop_cached ''blog'' =
                    (r, sm', [Constructed ''blog'' blog_client, Checked ''blog'' blog_client True])"
    by (rule spec)
  show ?thesis
    by (intro conjI) (rule h1, rule h2, rule c, rule s1, rule s2, rule s3, rule g1, rule g2)
qed

text \<open>
  C7. \<open>getClient\<close> for a site that is not configured throws -32001, changes nothing and
  constructs no client; for a configured site without a cached client, when the client
  has been constructed and its check fails, it throws -32002.
\<close>

theorem getClient_error_codes:
  "(map_of (sites sm) siteId = None \<longrightarrow>
      (\<exists>m d. getClient isConnected sm siteId = (Inl (JsonRpcError m (-32001) d), sm, [])))
 \<and> (map_of (sites sm) siteId = Some config \<and> map_of (clients sm) siteId = None
      \<and> new_WordPressClient config = Inr client \<longrightarrow>
      (\<exists>m d. getClient False sm siteId =
         (Inl (JsonRpcError m (-32002) d), sm,
          [Constructed siteId client, Checked siteId client False])))"
proof (intro conjI impI)
  assume "map_of (sites sm) siteId = None"
  then show "\<exists>m d. getClient isConnected sm siteId = (Inl (JsonRpcError m (-32001) d), sm, [])"
    by (simp add: getClient_def)
next
  assume a: "map_of (sites sm) siteId = Some config \<and> map_of (clients sm) siteId = None
               \<and> new_WordPressClient config = Inr client"
  then have "getClient False sm siteId =
           (Inl (JsonRpcError (''Failed to connect to WordPress site: '' @ siteId) (-32002)
                   (Some (JObj [(''siteId'', JStr siteId)]))),
            sm, [Constructed siteId client, Checked siteId client False])"
    using getClient_failed_check(1)[of sm siteId config client] by simp
  then show "\<exists>m d. getClient False sm siteId =
         (Inl (JsonRpcError m (-32002) d), sm,
          [Constructed siteId client, Checked siteId client False])"
    by blast
qed

theorem getClient_error_codes_witness:
  "map_of (sites two_sites) ''forum'' = None
   \<and> (\<exists>m d. getClient True two_sites ''forum'' = (Inl (JsonRpcError m (-32001) d), two_sites, []))
   \<and> map_of (sites two_sites) ''blog'' = Some blog_config
   \<and> map_of (clients two_sites) ''blog'' = None
   \<and> new_WordPressClient blog_config = Inr blog_client
   \<and> (\<exists>m d. getClient False two_sites ''blog'' =
         (Inl (JsonRpcError m (-32002) d), two_sites,
          [Constructed ''blog'' blog_client, Checked ''blog'' blog_client False]))"
proof -
  have a: "map_of (sites two_sites) ''forum'' = None"
    by (simp add: two_sites_def loaded_manager_def)
  have b1: "map_of (sites two_sites) ''blog'' = Some blog_config"
    and b2: "map_of (clients two_sites) ''blog'' = None"
    by (simp_all add: two_sites_def loaded_manager_def)
  note b3 = example_clients(1)
  from b1 b2 b3
  have b: "map_of (sites two_sites) ''blog'' = Some blog_config
           \<and> map_of (clients two_sites) ''blog'' = None
           \<and> new_WordPressClient blog_config = Inr blog_client"
    by (intro conjI)
  from getClient_error_codes[of two_sites "''forum''" True blog_config blog_client]
  have "map_of (sites two_sites) ''forum'' = None \<longrightarrow>
      (\<exists>m d. getClient True two_sites ''forum'' = (Inl (JsonRpcError m (-32001) d), two_sites, []))"
    by (rule conjunct1)
  with a have e1: "\<exists>m d. getClient True two_sites ''forum''
                          = (Inl (JsonRpcError m (-32001) d), two_sites, [])"
    by (rule rev_mp)
  from getClient_error_codes[of two_sites "''blog''" False blog_config blog_client]
  have "map_of (sites two_sites) ''blog'' = Some blog_config
          \<and> map_of (clients two_sites) ''blog'' = None
          \<and> new_WordPressClient blog_config = Inr blog_client \<longrightarrow>
      (\<exists>m d. getClient False two_sites ''blog'' =
         (Inl (JsonRpcError m (-32002) d), two_sites,
          [Constructed ''blog'' blog_client, Checked ''blog'' blog_client False]))"
    by (rule conjunct2)
  with b have e2: "\<exists>m d. getClient False two_sites ''blog'' =
         (Inl (JsonRpcError m (-32002) d), two_sites,
          [Constructed ''blog'' blog_client, Checked ''blog'' blog_client False])"
    by (rule rev_mp)
  show ?thesis by (intro conjI) (rule a, rule e1, rule b1, rule b2, rule b3, rule e2)
qed



end
